theory Spec2Isabelle
  imports Main
begin

section \<open>The greeting service of \<^verbatim>\<open>src/api/main.py\<close>\<close>

text \<open>
  The module registers one handler:
  \<^verbatim>\<open>
  @app.get("/greet")
  def greet(name: str):
      return {"message": f"Hello, my name is {name}"}
  \<close>
  A Python \<^verbatim>\<open>str\<close> is modelled as a \<^typ>\<open>string\<close>, read as the UTF-8 bytes of the
  text: the handler only concatenates strings, and UTF-8 encoding commutes with
  concatenation and preserves equality. The returned \<^verbatim>\<open>dict\<close> is a map from
  field names to text; the f-string has a literal part and one replacement field with no
  conversion and no format specification, which for a \<^verbatim>\<open>str\<close> argument yields
  the argument itself.
\<close>

definition greet :: "string \<Rightarrow> (string \<rightharpoonup> string)" where
  "greet name = [''message'' \<mapsto> ''Hello, my name is '' @ name]"

subsection \<open>Invoking the handler in a running process\<close>

text \<open>
  To speak of two invocations at different moments, a call is given the state of the
  process at that moment, a value of an arbitrary type \<open>'w\<close>. The body of
  \<^verbatim>\<open>greet\<close> is a single \<^verbatim>\<open>return\<close> whose expression mentions only
  \<^verbatim>\<open>name\<close>, so the result is computed from \<open>name\<close> alone and the state is
  passed on as the handler found it. This describes the handler's body only, not what the
  web framework around it does while serving a request.
\<close>

definition greet_call :: "'w \<Rightarrow> string \<Rightarrow> (string \<rightharpoonup> string) \<times> 'w" where
  "greet_call w name = (greet name, w)"

text \<open>A sequence of requests, handled one after the other, each in the state the last one left.\<close>

fun handle_all :: "'w \<Rightarrow> string list \<Rightarrow> (string \<rightharpoonup> string) list \<times> 'w" where
  "handle_all w [] = ([], w)"
| "handle_all w (name # names) =
     (case greet_call w name of
        (r, w') \<Rightarrow> (case handle_all w' names of (rs, w'') \<Rightarrow> (r # rs, w'')))"

section \<open>Properties\<close>

lemma greet_call_result: "fst (greet_call w name) = greet name"
  by (simp add: greet_call_def)

text \<open>
  C1. For every text value \<open>name\<close>, the object returned by \<open>greet\<close> has a
  \<open>message\<close> field equal to the literal \<open>Hello, my name is \<close> followed by
  \<open>name\<close>; for \<open>Alice\<close> the message is \<open>Hello, my name is Alice\<close>.
\<close>

theorem greet_message:
  "greet name ''message'' = Some (''Hello, my name is '' @ name)
   \<and> greet ''Alice'' ''message'' = Some ''Hello, my name is Alice''"
  by (simp add: greet_def)

text \<open>
  C3. With the empty string as \<open>name\<close> the handler returns normally, and the object it
  returns is the single field \<open>message\<close> holding \<open>Hello, my name is \<close>, with
  nothing after the trailing space.
\<close>

theorem greet_empty_name:
  "greet '''' = [''message'' \<mapsto> ''Hello, my name is '']
   \<and> greet '''' ''message'' = Some ''Hello, my name is ''"
  by (simp add: greet_def)

text \<open>
  C4. The handler is deterministic: two invocations with the same \<open>name\<close> give the
  same \<open>message\<close>, whatever the state of the process at either invocation and
  whatever requests were handled before either of them.
\<close>

theorem greet_deterministic:
  "fst (greet_call w1 name) ''message'' = fst (greet_call w2 name) ''message''
   \<and> fst (greet_call (snd (handle_all w1 before1)) name)
       = fst (greet_call (snd (handle_all w2 before2)) name)"
  by (simp add: greet_call_result)

text \<open>
  C5. For every \<open>name\<close> the returned object has exactly one field; the field is named
  \<open>message\<close> and holds a text value.
\<close>

theorem greet_single_field:
  "dom (greet name) = {''message''}
   \<and> card (dom (greet name)) = 1
   \<and> (\<exists>msg. greet name = [''message'' \<mapsto> msg])"
proof -
  have single: "greet name = [''message'' \<mapsto> ''Hello, my name is '' @ name]"
    by (rule greet_def)
  have "dom (greet name) = {''message''}"
    by (simp add: single)
  moreover from this have "card (dom (greet name)) = 1"
    by simp
  moreover from single have "\<exists>msg. greet name = [''message'' \<mapsto> msg]"
    by (rule exI)
  ultimately show ?thesis
    by blast
qed

text \<open>
  C8. The handler returns a value for every string \<open>name\<close>, and the message is the
  18-character literal followed by \<open>name\<close> unchanged: braces, quotes, format
  directives and bytes beyond ASCII in \<open>name\<close> are copied, never interpreted.
\<close>

theorem greet_total_verbatim:
  \<open>(\<exists>msg. greet name ''message'' = Some msg
      \<and> take 18 msg = ''Hello, my name is ''
      \<and> drop 18 msg = name
      \<and> length msg = 18 + length name)
   \<and> greet ''{name}'' ''message'' = Some ''Hello, my name is {name}''
   \<and> greet ''{'' ''message'' = Some ''Hello, my name is {''
   \<and> greet ''it's {0!r:>10} %s %(x)d'' ''message''
       = Some ''Hello, my name is it's {0!r:>10} %s %(x)d''
   \<and> greet [CHR 0x22, CHR 0x5C, CHR 0x22] ''message''
       = Some (''Hello, my name is '' @ [CHR 0x22, CHR 0x5C, CHR 0x22])
   \<and> greet [CHR 0xC3, CHR 0xA9] ''message''
       = Some (''Hello, my name is '' @ [CHR 0xC3, CHR 0xA9])\<close>
  by (simp add: greet_def)

text \<open>
  C9. The greeting is injective in the name: equal messages come from equal names; and
  the name is what is left of the message once the literal \<open>Hello, my name is \<close> is
  dropped from its front.
\<close>

theorem greet_injective:
  "(greet v1 ''message'' = greet v2 ''message'' \<longrightarrow> v1 = v2)
   \<and> (greet v ''message'' = Some msg
        \<longrightarrow> drop (length ''Hello, my name is '') msg = v)"
  by (auto simp add: greet_def)

theorem greet_injective_witness:
  "greet ''Alice'' ''message'' = greet (''Al'' @ ''ice'') ''message''
   \<and> ''Alice'' = ''Al'' @ ''ice''
   \<and> greet ''Bob'' ''message'' = Some ''Hello, my name is Bob''
   \<and> drop (length ''Hello, my name is '') ''Hello, my name is Bob'' = ''Bob''"
  using greet_injective [of "''Alice''" "''Al'' @ ''ice''" "''Bob''" "''Hello, my name is Bob''"]
  by (simp add: greet_def)

end
